theory Spec2Isabelle
  imports Main "HOL-Library.Sublist"
begin

section \<open>Python values\<close>

text \<open>
  The gateway client handles Python values of a few shapes only. The arguments of
  \<^verbatim>\<open>create_payment\<close> and its keyword arguments are \<^verbatim>\<open>None\<close>, booleans, integers and
  strings (\<^verbatim>\<open>id: Union[int, str]\<close>, \<^verbatim>\<open>amount: Union[int, float, str]\<close>, optional string
  keywords); a merchant payload is a parsed JSON object, so its values may also be lists
  and nested objects. Strings are UTF-8 byte lists: the client only concatenates them,
  compares them with ASCII literals and splits them at the ASCII underscore, which commutes
  with the encoding. Floating-point amounts are not modelled.
\<close>

datatype atom = PNone | PBool bool | PInt int | PStr string

datatype pyval = Atom atom | PList "pyval list" | PDict "(string \<times> pyval) list"

type_synonym pydict = "(string \<times> pyval) list"

text \<open>
  Exceptions. \<open>ValueError\<close> carries its message. \<open>TypeError_unhashable\<close> is the
  \<^verbatim>\<open>TypeError\<close> of a dictionary lookup whose key is a list or a dict. \<open>ApiError\<close> is any
  exception raised inside the merchant API, tagged by its name. \<open>InternalServiceError e\<close>
  is the package's own \<^verbatim>\<open>InternalServiceError\<close>, raised in place of the exception \<open>e\<close>
  whose text it carries.
\<close>

datatype py_error =
  ValueError string | TypeError_unhashable | ApiError string | InternalServiceError py_error


subsection \<open>\<^verbatim>\<open>str(int)\<close>: decimal digits\<close>

definition digit_char :: "nat \<Rightarrow> char" where
  "digit_char d = ''0123456789'' ! d"

fun str_nat :: "nat \<Rightarrow> string" where
  "str_nat n = (if n < 10 then [digit_char n] else str_nat (n div 10) @ [digit_char (n mod 10)])"

declare str_nat.simps [simp del]

definition str_int :: "int \<Rightarrow> string" where
  "str_int i = (if i < 0 then CHR ''-'' # str_nat (nat (- i)) else str_nat (nat i))"

subsection \<open>Formatting in an f-string, truthiness, \<^verbatim>\<open>dict.get\<close>, \<^verbatim>\<open>str.split\<close>\<close>

fun py_str :: "atom \<Rightarrow> string" where
  "py_str PNone = ''None''"
| "py_str (PBool b) = (if b then ''True'' else ''False'')"
| "py_str (PInt i) = str_int i"
| "py_str (PStr s) = s"

fun truthy :: "atom \<Rightarrow> bool" where
  "truthy PNone = False"
| "truthy (PBool b) = b"
| "truthy (PInt i) = (i \<noteq> 0)"
| "truthy (PStr s) = (s \<noteq> [])"

text \<open>\<^verbatim>\<open>d.get(k, default)\<close>; a dictionary is an association list, the first entry of a key wins.\<close>

definition dict_get :: "('k \<times> 'v) list \<Rightarrow> 'k \<Rightarrow> 'v \<Rightarrow> 'v" where
  "dict_get d k dflt = (case map_of d k of None \<Rightarrow> dflt | Some v \<Rightarrow> v)"

text \<open>
  \<^verbatim>\<open>s.split(c)\<close> with a one-character separator: every occurrence of \<open>c\<close> ends a segment,
  so the result has one segment more than \<open>s\<close> has separators and is never empty.
\<close>

fun split :: "char \<Rightarrow> string \<Rightarrow> string list" where
  "split c [] = [[]]"
| "split c (x # xs) =
     (if x = c then [] # split c xs
      else (case split c xs of [] \<Rightarrow> [[x]] | p # ps \<Rightarrow> (x # p) # ps))"

section \<open>The Click gateway\<close>

text \<open>
  The fields of \<^verbatim>\<open>ClickGateway.__init__\<close>. The HTTP client and the merchant API object are
  represented by \<open>api_calls\<close>, the requests sent through \<^verbatim>\<open>self.merchant_api\<close> so far, oldest
  first.
\<close>

datatype api_call = CheckPayment string | CancelPayment string "string option"

record click_gateway =
  service_id :: string
  merchant_id :: string
  merchant_user_id :: "string option"
  secret_key :: "string option"
  is_test_mode :: bool
  api_calls :: "api_call list"

text \<open>
  Modelled from the spec: \<^verbatim>\<open>ClickMerchantApi\<close> (paytechuz.gateways.click.merchant) is not
  among the sources. The spec gives \<^verbatim>\<open>check_payment(account_id) -> raw_status_payload\<close> and
  \<^verbatim>\<open>cancel_payment(account_id, reason=None) -> raw_cancel_payload\<close>, each of which may
  fail. The remote service is a parameter: its answer to a request may depend on the
  requests it has received before.
\<close>

record merchant_api =
  api_check_payment :: "api_call list \<Rightarrow> string \<Rightarrow> py_error + pydict"
  api_cancel_payment :: "api_call list \<Rightarrow> string \<Rightarrow> string option \<Rightarrow> py_error + pydict"

definition merchant_check_payment ::
  "merchant_api \<Rightarrow> click_gateway \<Rightarrow> string \<Rightarrow> (py_error + pydict) \<times> click_gateway" where
  "merchant_check_payment api self account_id =
     (api_check_payment api (api_calls self) account_id,
      self\<lparr>api_calls := api_calls self @ [CheckPayment account_id]\<rparr>)"

definition merchant_cancel_payment ::
  "merchant_api \<Rightarrow> click_gateway \<Rightarrow> string \<Rightarrow> string option
     \<Rightarrow> (py_error + pydict) \<times> click_gateway" where
  "merchant_cancel_payment api self account_id reason =
     (api_cancel_payment api (api_calls self) account_id reason,
      self\<lparr>api_calls := api_calls self @ [CancelPayment account_id reason]\<rparr>)"

text \<open>
  Modelled from the spec: the decorator \<^verbatim>\<open>handle_exceptions\<close> (paytechuz.core.utils) is not
  among the sources. The spec calls it a single error-translation wrapper through which the
  client methods propagate exceptions to the caller: a failure stays a failure, a returned
  value is returned. The translation of the exception is the parameter \<open>tr\<close>.
\<close>

definition handle_exceptions ::
  "(py_error \<Rightarrow> py_error) \<Rightarrow> (py_error + 'a) \<times> 's \<Rightarrow> (py_error + 'a) \<times> 's" where
  "handle_exceptions tr res =
     (case res of (Inl e, s) \<Rightarrow> (Inl (tr e), s) | (Inr v, s) \<Rightarrow> (Inr v, s))"


subsection \<open>\<^verbatim>\<open>create_payment\<close>\<close>

definition create_payment_body ::
  "click_gateway \<Rightarrow> atom \<Rightarrow> atom \<Rightarrow> (string \<times> atom) list
     \<Rightarrow> (py_error + string) \<times> click_gateway" where
  "create_payment_body self id' amount kwargs =
     (let description =
            dict_get kwargs ''description'' (PStr (''Payment for account '' @ py_str id'));
          return_url = dict_get kwargs ''return_url'' PNone;
          callback_url = dict_get kwargs ''callback_url'' PNone;
          payment_url = ''https://my.click.uz/services/pay'';
          payment_url = payment_url @ ''?service_id='' @ service_id self;
          payment_url = payment_url @ ''&merchant_id='' @ merchant_id self;
          payment_url = payment_url @ ''&amount='' @ py_str amount;
          payment_url = payment_url @ ''&transaction_param='' @ py_str id';
          payment_url =
            (if truthy return_url then payment_url @ ''&return_url='' @ py_str return_url
             else payment_url);
          payment_url =
            (if truthy callback_url then payment_url @ ''&callback_url='' @ py_str callback_url
             else payment_url);
          payment_url =
            (if truthy description then payment_url @ ''&merchant_user_id='' @ py_str description
             else payment_url)
      in (Inr payment_url, self))"

definition create_payment ::
  "(py_error \<Rightarrow> py_error) \<Rightarrow> click_gateway \<Rightarrow> atom \<Rightarrow> atom \<Rightarrow> (string \<times> atom) list
     \<Rightarrow> (py_error + string) \<times> click_gateway" where
  "create_payment tr self id' amount kwargs =
     handle_exceptions tr (create_payment_body self id' amount kwargs)"

subsection \<open>\<^verbatim>\<open>check_payment\<close>\<close>

definition status_mapping :: "(string \<times> string) list" where
  "status_mapping =
     [(''success'', ''paid''),
      (''processing'', ''waiting''),
      (''failed'', ''failed''),
      (''cancelled'', ''cancelled'')]"

text \<open>
  \<^verbatim>\<open>status_mapping.get(status, 'unknown')\<close>: the key is hashed first, which raises for a list
  or a dict; a key that is not a string equals none of the table's keys.
\<close>

fun status_mapping_get :: "pyval \<Rightarrow> py_error + string" where
  "status_mapping_get (Atom (PStr s)) = Inr (dict_get status_mapping s ''unknown'')"
| "status_mapping_get (Atom a) = Inr ''unknown''"
| "status_mapping_get (PList xs) = Inl TypeError_unhashable"
| "status_mapping_get (PDict d) = Inl TypeError_unhashable"

definition check_payment_body ::
  "merchant_api \<Rightarrow> click_gateway \<Rightarrow> string \<Rightarrow> (py_error + pydict) \<times> click_gateway" where
  "check_payment_body api self transaction_id =
     (let parts = split CHR ''_'' transaction_id in
      if length parts < 3 \<or> parts ! 0 \<noteq> ''click'' then
        (Inl (ValueError (''Invalid transaction ID format: '' @ transaction_id)), self)
      else
        let account_id = parts ! 1;
            (res, self) = merchant_check_payment api self account_id
        in case res of
             Inl e \<Rightarrow> (Inl e, self)
           | Inr payment_data \<Rightarrow>
               let status = dict_get payment_data ''status'' (Atom PNone) in
               (case status_mapping_get status of
                  Inl e \<Rightarrow> (Inl e, self)
                | Inr mapped_status \<Rightarrow>
                    (Inr [(''transaction_id'', Atom (PStr transaction_id)),
                          (''status'', Atom (PStr mapped_status)),
                          (''amount'', dict_get payment_data ''amount'' (Atom PNone)),
                          (''paid_at'', dict_get payment_data ''paid_at'' (Atom PNone)),
                          (''created_at'', dict_get payment_data ''created_at'' (Atom PNone)),
                          (''raw_response'', PDict payment_data)],
                     self)))"

definition check_payment ::
  "(py_error \<Rightarrow> py_error) \<Rightarrow> merchant_api \<Rightarrow> click_gateway \<Rightarrow> string
     \<Rightarrow> (py_error + pydict) \<times> click_gateway" where
  "check_payment tr api self transaction_id =
     handle_exceptions tr (check_payment_body api self transaction_id)"

subsection \<open>\<^verbatim>\<open>cancel_payment\<close>\<close>

definition cancel_payment_body ::
  "merchant_api \<Rightarrow> click_gateway \<Rightarrow> string \<Rightarrow> string option
     \<Rightarrow> (py_error + pydict) \<times> click_gateway" where
  "cancel_payment_body api self transaction_id reason =
     (let parts = split CHR ''_'' transaction_id in
      if length parts < 3 \<or> parts ! 0 \<noteq> ''click'' then
        (Inl (ValueError (''Invalid transaction ID format: '' @ transaction_id)), self)
      else
        let account_id = parts ! 1;
            (res, self) = merchant_cancel_payment api self account_id reason
        in case res of
             Inl e \<Rightarrow> (Inl e, self)
           | Inr cancel_data \<Rightarrow>
               (Inr [(''transaction_id'', Atom (PStr transaction_id)),
                     (''status'', Atom (PStr ''cancelled'')),
                     (''cancelled_at'', dict_get cancel_data ''cancelled_at'' (Atom PNone)),
                     (''raw_response'', PDict cancel_data)],
                self))"

definition cancel_payment ::
  "(py_error \<Rightarrow> py_error) \<Rightarrow> merchant_api \<Rightarrow> click_gateway \<Rightarrow> string \<Rightarrow> string option
     \<Rightarrow> (py_error + pydict) \<times> click_gateway" where
  "cancel_payment tr api self transaction_id reason =
     handle_exceptions tr (cancel_payment_body api self transaction_id reason)"

section \<open>Vocabulary of the statements\<close>

text \<open>
  The guard of \<^verbatim>\<open>check_payment\<close> and \<^verbatim>\<open>cancel_payment\<close>, negated: a transaction id passes
  when it has at least three underscore-delimited segments and the first one is
  \<^verbatim>\<open>click\<close>. The account id is the second segment. \<open>split\<close> never returns the empty
  list, so \<open>parts ! 0\<close> is always a segment.
\<close>

definition valid_transaction_id :: "string \<Rightarrow> bool" where
  "valid_transaction_id transaction_id =
     (let parts = split CHR ''_'' transaction_id
      in \<not> (length parts < 3 \<or> parts ! 0 \<noteq> ''click''))"

definition account_id_of :: "string \<Rightarrow> string" where
  "account_id_of transaction_id = split CHR ''_'' transaction_id ! 1"

text \<open>A dictionary with one key removed.\<close>

definition without_key :: "'k \<Rightarrow> ('k \<times> 'v) list \<Rightarrow> ('k \<times> 'v) list" where
  "without_key k d = filter (\<lambda>kv. fst kv \<noteq> k) d"

text \<open>
  The URL format as the spec writes it: a query string is a list of \<open>name=value\<close> pairs
  joined by \<open>&\<close>, and a bracketed parameter of the template is there or not.
\<close>

fun spec_render_query :: "(string \<times> string) list \<Rightarrow> string" where
  "spec_render_query [] = []"
| "spec_render_query [(k, v)] = k @ ''='' @ v"
| "spec_render_query ((k, v) # kvs) = k @ ''='' @ v @ ''&'' @ spec_render_query kvs"

definition spec_optional_param :: "string \<Rightarrow> atom \<Rightarrow> (string \<times> string) list" where
  "spec_optional_param name v = (if truthy v then [(name, py_str v)] else [])"

text \<open>A gateway and a merchant API to evaluate the client on.\<close>

definition example_gateway :: click_gateway where
  "example_gateway =
     \<lparr>service_id = ''S'', merchant_id = ''M'', merchant_user_id = None, secret_key = None,
      is_test_mode = False, api_calls = []\<rparr>"

definition example_api :: "pydict \<Rightarrow> merchant_api" where
  "example_api payload =
     \<lparr>api_check_payment = (\<lambda>history account_id. Inr payload),
      api_cancel_payment = (\<lambda>history account_id reason. Inr payload)\<rparr>"

section \<open>Auxiliary facts\<close>

lemma str_int_42: "str_int 42 = ''42''"
  by (simp add: str_int_def str_nat.simps digit_char_def)

lemma str_int_150000: "str_int 150000 = ''150000''"
  by (simp add: str_int_def str_nat.simps digit_char_def)

lemma handle_exceptions_Inl: "handle_exceptions tr (Inl e, s) = (Inl (tr e), s)"
  by (simp add: handle_exceptions_def)

lemma handle_exceptions_Inr: "handle_exceptions tr (Inr v, s) = (Inr v, s)"
  by (simp add: handle_exceptions_def)

lemma create_payment_url:
  "create_payment tr self i amount kwargs =
     (Inr (''https://my.click.uz/services/pay?service_id='' @ service_id self
           @ ''&merchant_id='' @ merchant_id self
           @ ''&amount='' @ py_str amount
           @ ''&transaction_param='' @ py_str i
           @ (if truthy (dict_get kwargs ''return_url'' PNone)
              then ''&return_url='' @ py_str (dict_get kwargs ''return_url'' PNone) else [])
           @ (if truthy (dict_get kwargs ''callback_url'' PNone)
              then ''&callback_url='' @ py_str (dict_get kwargs ''callback_url'' PNone) else [])
           @ (if truthy (dict_get kwargs ''description'' (PStr (''Payment for account '' @ py_str i)))
              then ''&merchant_user_id=''
                   @ py_str (dict_get kwargs ''description'' (PStr (''Payment for account '' @ py_str i)))
              else [])),
      self)"
  by (simp add: create_payment_def create_payment_body_def handle_exceptions_def Let_def)

lemma split_not_Nil: "split c s \<noteq> []"
  by (induction s) (auto split: list.splits)

lemma split_no_sep: "c \<notin> set a \<Longrightarrow> split c a = [a]"
  by (induction a) auto

lemma split_sep: "c \<notin> set a \<Longrightarrow> split c (a @ c # r) = a # split c r"
  by (induction a) auto

lemma split_decomp:
  "split c s = p # q # rest \<Longrightarrow> \<exists>s'. s = p @ c # s' \<and> c \<notin> set p \<and> split c s' = q # rest"
proof (induction s arbitrary: p)
  case Nil
  then show ?case by simp
next
  case (Cons x xs)
  show ?case
  proof (cases "x = c")
    case True
    with Cons.prems show ?thesis by auto
  next
    case False
    with Cons.prems obtain p' where p: "p = x # p'" and s: "split c xs = p' # q # rest"
      by (auto split: list.splits)
    from Cons.IH [OF s] obtain s' where "xs = p' @ c # s'" "c \<notin> set p'" "split c s' = q # rest"
      by blast
    with p False show ?thesis by auto
  qed
qed

lemma valid_transaction_id_iff:
  "valid_transaction_id t \<longleftrightarrow>
     (\<exists>a r. t = ''click_'' @ a @ ''_'' @ r \<and> CHR ''_'' \<notin> set a)"
proof
  assume v: "valid_transaction_id t"
  define parts where "parts = split CHR ''_'' t"
  from v have len: "3 \<le> length parts" and first: "parts ! 0 = ''click''"
    by (simp_all add: valid_transaction_id_def parts_def Let_def)
  from len obtain p ps where 1: "parts = p # ps" by (cases parts) auto
  from len 1 obtain q qs where 2: "ps = q # qs" by (cases ps) auto
  from len 1 2 obtain r1 rs where 3: "qs = r1 # rs" by (cases qs) auto
  define rest where "rest = r1 # rs"
  have rest: "rest = r1 # rs" by (simp add: rest_def)
  from 1 2 3 have parts: "split CHR ''_'' t = p # q # rest" by (simp add: parts_def rest_def)
  from first 1 have p: "p = ''click''" by simp
  from split_decomp [OF parts] obtain s' where
    t: "t = p @ CHR ''_'' # s'" and s': "split CHR ''_'' s' = q # rest" by blast
  from split_decomp [OF s' [unfolded rest]] obtain s'' where
    "s' = q @ CHR ''_'' # s''" "CHR ''_'' \<notin> set q" by blast
  with t p show "\<exists>a r. t = ''click_'' @ a @ ''_'' @ r \<and> CHR ''_'' \<notin> set a"
    by auto
next
  assume "\<exists>a r. t = ''click_'' @ a @ ''_'' @ r \<and> CHR ''_'' \<notin> set a"
  then obtain a r where t: "t = ''click_'' @ a @ ''_'' @ r" and a: "CHR ''_'' \<notin> set a" by blast
  have "split CHR ''_'' t = ''click'' # a # split CHR ''_'' r"
    using split_sep [of "CHR ''_''" "''click''" "a @ CHR ''_'' # r"] split_sep [OF a, of r] t
    by simp
  then show "valid_transaction_id t"
    using split_not_Nil [of "CHR ''_''" r]
    by (cases "split CHR ''_'' r") (simp_all add: valid_transaction_id_def)
qed

lemma account_id_of_click:
  "CHR ''_'' \<notin> set a \<Longrightarrow> account_id_of (''click_'' @ a @ ''_'' @ r) = a"
  using split_sep [of "CHR ''_''" "''click''" "a @ CHR ''_'' # r"] split_sep [of "CHR ''_''" a r]
  by (simp add: account_id_of_def)

lemma check_payment_invalid:
  "\<not> valid_transaction_id t \<Longrightarrow>
     check_payment tr api self t =
       (Inl (tr (ValueError (''Invalid transaction ID format: '' @ t))), self)"
  by (auto simp add: check_payment_def check_payment_body_def valid_transaction_id_def Let_def
      handle_exceptions_def)

lemma cancel_payment_invalid:
  "\<not> valid_transaction_id t \<Longrightarrow>
     cancel_payment tr api self t reason =
       (Inl (tr (ValueError (''Invalid transaction ID format: '' @ t))), self)"
  by (auto simp add: cancel_payment_def cancel_payment_body_def valid_transaction_id_def Let_def
      handle_exceptions_def)



lemma check_payment_valid:
  "valid_transaction_id t \<Longrightarrow>
     check_payment tr api self t =
       (case api_check_payment api (api_calls self) (account_id_of t) of
          Inl e \<Rightarrow> Inl (tr e)
        | Inr payment_data \<Rightarrow>
            (case status_mapping_get (dict_get payment_data ''status'' (Atom PNone)) of
               Inl e \<Rightarrow> Inl (tr e)
             | Inr mapped_status \<Rightarrow>
                 Inr [(''transaction_id'', Atom (PStr t)),
                      (''status'', Atom (PStr mapped_status)),
                      (''amount'', dict_get payment_data ''amount'' (Atom PNone)),
                      (''paid_at'', dict_get payment_data ''paid_at'' (Atom PNone)),
                      (''created_at'', dict_get payment_data ''created_at'' (Atom PNone)),
                      (''raw_response'', PDict payment_data)]),
        self\<lparr>api_calls := api_calls self @ [CheckPayment (account_id_of t)]\<rparr>)"
  by (auto simp add: check_payment_def check_payment_body_def valid_transaction_id_def Let_def
      account_id_of_def merchant_check_payment_def handle_exceptions_def split: sum.splits)

lemma cancel_payment_valid:
  "valid_transaction_id t \<Longrightarrow>
     cancel_payment tr api self t reason =
       (case api_cancel_payment api (api_calls self) (account_id_of t) reason of
          Inl e \<Rightarrow> Inl (tr e)
        | Inr cancel_data \<Rightarrow>
            Inr [(''transaction_id'', Atom (PStr t)),
                 (''status'', Atom (PStr ''cancelled'')),
                 (''cancelled_at'', dict_get cancel_data ''cancelled_at'' (Atom PNone)),
                 (''raw_response'', PDict cancel_data)],
        self\<lparr>api_calls := api_calls self @ [CancelPayment (account_id_of t) reason]\<rparr>)"
  by (auto simp add: cancel_payment_def cancel_payment_body_def valid_transaction_id_def Let_def
      account_id_of_def merchant_cancel_payment_def handle_exceptions_def split: sum.splits)

lemma status_mapping_get_Atom:
  "status_mapping_get (Atom a) =
     Inr (if a = PStr ''success'' then ''paid''
          else if a = PStr ''processing'' then ''waiting''
          else if a = PStr ''failed'' then ''failed''
          else if a = PStr ''cancelled'' then ''cancelled''
          else ''unknown'')"
  by (cases a) (auto simp add: dict_get_def status_mapping_def)

lemma valid_click_42_150000: "valid_transaction_id ''click_42_150000''"
  by (simp add: valid_transaction_id_def)

lemma account_id_of_click_42_150000: "account_id_of ''click_42_150000'' = ''42''"
  by (simp add: account_id_of_def)

lemma invalid_bogus: "\<not> valid_transaction_id ''bogus''"
  by (simp add: valid_transaction_id_def)


lemma valid_click_42_extra: "valid_transaction_id ''click_42_1_extra''"
  by (simp add: valid_transaction_id_def)

lemma account_id_of_click_42_extra: "account_id_of ''click_42_1_extra'' = ''42''"
  by (simp add: account_id_of_def)

section \<open>Properties of the client\<close>

subsection \<open>\<^verbatim>\<open>create_payment\<close>\<close>

text \<open>
  C1. For every gateway, the call \<^verbatim>\<open>create_payment(id=42, amount=150000,
  return_url="https://x/done")\<close> leaves the description to its default, which is not
  empty, so the URL returned is the spec's string followed by
  \<^verbatim>\<open>&merchant_user_id=Payment for account 42\<close>. The spec's string itself is what the call
  returns when the empty description is passed as well. The gateway is returned unchanged.
\<close>

theorem create_payment_example:
  "create_payment tr self (PInt 42) (PInt 150000) [(''return_url'', PStr ''https://x/done'')] =
     (Inr (''https://my.click.uz/services/pay?service_id='' @ service_id self
           @ ''&merchant_id='' @ merchant_id self
           @ ''&amount=150000&transaction_param=42&return_url=https://x/done&merchant_user_id=Payment for account 42''),
      self)
   \<and> create_payment tr self (PInt 42) (PInt 150000)
         [(''return_url'', PStr ''https://x/done''), (''description'', PStr '''')] =
     (Inr (''https://my.click.uz/services/pay?service_id='' @ service_id self
           @ ''&merchant_id='' @ merchant_id self
           @ ''&amount=150000&transaction_param=42&return_url=https://x/done''),
      self)"
  by (simp add: create_payment_url dict_get_def str_int_42 str_int_150000)

theorem create_payment_example_witness:
  "create_payment id example_gateway (PInt 42) (PInt 150000)
       [(''return_url'', PStr ''https://x/done'')] =
     (Inr ''https://my.click.uz/services/pay?service_id=S&merchant_id=M&amount=150000&transaction_param=42&return_url=https://x/done&merchant_user_id=Payment for account 42'',
      example_gateway)"
  using create_payment_example [of id example_gateway]
  by (simp add: example_gateway_def)

text \<open>
  The URL of the spec's example is not what the call returns for \<^verbatim>\<open>service_id="S"\<close> and
  \<^verbatim>\<open>merchant_id="M"\<close>.
\<close>

theorem create_payment_example_counterexample:
  "fst (create_payment id example_gateway (PInt 42) (PInt 150000)
          [(''return_url'', PStr ''https://x/done'')])
   \<noteq> Inr ''https://my.click.uz/services/pay?service_id=S&merchant_id=M&amount=150000&transaction_param=42&return_url=https://x/done''"
  by (simp add: create_payment_url example_gateway_def dict_get_def str_int_42 str_int_150000)

text \<open>
  C4. Every call of \<^verbatim>\<open>create_payment\<close> returns \<^verbatim>\<open>https://my.click.uz/services/pay\<close>,
  a question mark and the query string of these parameters in this order: \<open>service_id\<close>,
  \<open>merchant_id\<close>, \<open>amount\<close>, \<open>transaction_param\<close>, then \<open>return_url\<close> when
  that keyword is truthy, then \<open>callback_url\<close> when that keyword is truthy, then
  \<open>merchant_user_id\<close>, carrying the description, when the description is truthy. There
  is no other parameter. The values are inserted as they are formatted, without escaping.
\<close>

theorem create_payment_url_format:
  "create_payment tr self i amount kwargs =
     (Inr (''https://my.click.uz/services/pay'' @ ''?'' @
           spec_render_query
             ([(''service_id'', service_id self),
               (''merchant_id'', merchant_id self),
               (''amount'', py_str amount),
               (''transaction_param'', py_str i)]
              @ spec_optional_param ''return_url'' (dict_get kwargs ''return_url'' PNone)
              @ spec_optional_param ''callback_url'' (dict_get kwargs ''callback_url'' PNone)
              @ spec_optional_param ''merchant_user_id''
                  (dict_get kwargs ''description'' (PStr (''Payment for account '' @ py_str i))))),
      self)"
  by (simp add: create_payment_url spec_optional_param_def)

theorem create_payment_url_format_witness:
  "create_payment id example_gateway (PStr ''7'') (PStr ''100'')
       [(''callback_url'', PStr ''https://x/cb''), (''description'', PStr ''Book'')] =
     (Inr ''https://my.click.uz/services/pay?service_id=S&merchant_id=M&amount=100&transaction_param=7&callback_url=https://x/cb&merchant_user_id=Book'',
      example_gateway)"
  using create_payment_url_format [of id example_gateway "PStr ''7''" "PStr ''100''"
      "[(''callback_url'', PStr ''https://x/cb''), (''description'', PStr ''Book'')]"]
  by (simp add: example_gateway_def spec_optional_param_def dict_get_def)

text \<open>
  C5. The URL depends on the gateway through \<open>service_id\<close> and \<open>merchant_id\<close> only:
  two calls with the same identifier, amount and keywords return the same URL whatever the
  other fields of the gateway, the requests sent so far and the error translation are. The
  call returns the gateway as it was, so it sends no request to the merchant API, and the
  URL contains \<open>transaction_param=\<close> followed by the formatted identifier and
  \<open>amount=\<close> followed by the formatted amount.
\<close>

theorem create_payment_deterministic:
  assumes "service_id g1 = service_id g2" and "merchant_id g1 = merchant_id g2"
  shows "fst (create_payment tr1 g1 i amount kwargs) = fst (create_payment tr2 g2 i amount kwargs)
    \<and> snd (create_payment tr1 g1 i amount kwargs) = g1
    \<and> (\<exists>p s. fst (create_payment tr1 g1 i amount kwargs)
                = Inr (p @ ''transaction_param='' @ py_str i @ s))
    \<and> (\<exists>p s. fst (create_payment tr1 g1 i amount kwargs)
                = Inr (p @ ''amount='' @ py_str amount @ s))"
proof -
  define tail where "tail =
    (if truthy (dict_get kwargs ''return_url'' PNone)
     then ''&return_url='' @ py_str (dict_get kwargs ''return_url'' PNone) else [])
    @ (if truthy (dict_get kwargs ''callback_url'' PNone)
       then ''&callback_url='' @ py_str (dict_get kwargs ''callback_url'' PNone) else [])
    @ (if truthy (dict_get kwargs ''description'' (PStr (''Payment for account '' @ py_str i)))
       then ''&merchant_user_id=''
            @ py_str (dict_get kwargs ''description'' (PStr (''Payment for account '' @ py_str i)))
       else [])"
  define head where "head =
    ''https://my.click.uz/services/pay?service_id='' @ service_id g1
    @ ''&merchant_id='' @ merchant_id g1 @ ''&''"
  have same: "fst (create_payment tr1 g1 i amount kwargs) = fst (create_payment tr2 g2 i amount kwargs)"
    using assms by (simp add: create_payment_url)
  have frame: "snd (create_payment tr1 g1 i amount kwargs) = g1"
    by (simp add: create_payment_url)
  have amt: "fst (create_payment tr1 g1 i amount kwargs)
      = Inr (head @ ''amount='' @ py_str amount @ (''&transaction_param='' @ py_str i @ tail))"
    by (simp add: create_payment_url head_def tail_def)
  have tp: "fst (create_payment tr1 g1 i amount kwargs)
      = Inr ((head @ ''amount='' @ py_str amount @ ''&'') @ ''transaction_param='' @ py_str i @ tail)"
    by (simp add: create_payment_url head_def tail_def)
  from same frame amt tp show ?thesis by blast
qed

theorem create_payment_deterministic_witness:
  "service_id example_gateway
     = service_id (example_gateway\<lparr>secret_key := Some ''k'', api_calls := [CheckPayment ''7'']\<rparr>)
   \<and> fst (create_payment id example_gateway (PInt 42) (PInt 150000) [])
     = fst (create_payment id
              (example_gateway\<lparr>secret_key := Some ''k'', api_calls := [CheckPayment ''7'']\<rparr>)
              (PInt 42) (PInt 150000) [])
   \<and> snd (create_payment id example_gateway (PInt 42) (PInt 150000) []) = example_gateway"
  using create_payment_deterministic [of example_gateway
      "example_gateway\<lparr>secret_key := Some ''k'', api_calls := [CheckPayment ''7'']\<rparr>"
      id "PInt 42" "PInt 150000" "[]" id]
  by simp

text \<open>
  C10. Let \<open>u0\<close> be the URL up to and including the optional \<open>callback_url\<close>. When the
  caller omits the \<open>description\<close> keyword, the URL is \<open>u0\<close> followed by
  \<^verbatim>\<open>&merchant_user_id=Payment for account {id}\<close>. When the caller passes a description
  \<open>d\<close>, the URL is \<open>u0\<close> followed by \<^verbatim>\<open>&merchant_user_id={d}\<close> if \<open>d\<close> is truthy,
  and \<open>u0\<close> alone if \<open>d\<close> is falsy: the parameter is appended exactly when the
  effective description is truthy, and only an explicit falsy description suppresses it.
\<close>

theorem create_payment_description:
  assumes "u0 = ''https://my.click.uz/services/pay?service_id='' @ service_id self
           @ ''&merchant_id='' @ merchant_id self
           @ ''&amount='' @ py_str amount
           @ ''&transaction_param='' @ py_str i
           @ (if truthy (dict_get kwargs ''return_url'' PNone)
              then ''&return_url='' @ py_str (dict_get kwargs ''return_url'' PNone) else [])
           @ (if truthy (dict_get kwargs ''callback_url'' PNone)
              then ''&callback_url='' @ py_str (dict_get kwargs ''callback_url'' PNone) else [])"
  shows "(map_of kwargs ''description'' = None \<longrightarrow>
            fst (create_payment tr self i amount kwargs)
              = Inr (u0 @ ''&merchant_user_id=Payment for account '' @ py_str i))
     \<and> (\<forall>d. map_of kwargs ''description'' = Some d \<longrightarrow>
            fst (create_payment tr self i amount kwargs)
              = Inr (u0 @ (if truthy d then ''&merchant_user_id='' @ py_str d else [])))"
  using assms by (simp add: create_payment_url dict_get_def)

theorem create_payment_description_witness:
  "fst (create_payment id example_gateway (PInt 42) (PInt 150000) [])
     = Inr ''https://my.click.uz/services/pay?service_id=S&merchant_id=M&amount=150000&transaction_param=42&merchant_user_id=Payment for account 42''
   \<and> fst (create_payment id example_gateway (PInt 42) (PInt 150000) [(''description'', PStr ''Book'')])
     = Inr ''https://my.click.uz/services/pay?service_id=S&merchant_id=M&amount=150000&transaction_param=42&merchant_user_id=Book''
   \<and> fst (create_payment id example_gateway (PInt 42) (PInt 150000) [(''description'', PStr '''')])
     = Inr ''https://my.click.uz/services/pay?service_id=S&merchant_id=M&amount=150000&transaction_param=42''"
  using create_payment_description [where tr = id and self = example_gateway and i = "PInt 42"
      and amount = "PInt 150000" and kwargs = "[]", OF refl]
    create_payment_description [where tr = id and self = example_gateway and i = "PInt 42"
      and amount = "PInt 150000" and kwargs = "[(''description'', PStr ''Book'')]", OF refl]
    create_payment_description [where tr = id and self = example_gateway and i = "PInt 42"
      and amount = "PInt 150000" and kwargs = "[(''description'', PStr [])]", OF refl]
  by (simp add: example_gateway_def dict_get_def str_int_42 str_int_150000)

text \<open>
  A call with the explicit description \<^verbatim>\<open>Book\<close> has no explicit falsy description, and
  its URL does not end in \<^verbatim>\<open>&merchant_user_id=Payment for account 42\<close>.
\<close>

theorem create_payment_description_counterexample:
  "fst (create_payment id example_gateway (PInt 42) (PInt 150000) [(''description'', PStr ''Book'')])
     = Inr ''https://my.click.uz/services/pay?service_id=S&merchant_id=M&amount=150000&transaction_param=42&merchant_user_id=Book''
   \<and> \<not> suffix ''&merchant_user_id=Payment for account 42''
         ''https://my.click.uz/services/pay?service_id=S&merchant_id=M&amount=150000&transaction_param=42&merchant_user_id=Book''"
  by (simp add: create_payment_url example_gateway_def dict_get_def str_int_42 str_int_150000
      suffix_to_prefix)

subsection \<open>\<^verbatim>\<open>check_payment\<close> and \<^verbatim>\<open>cancel_payment\<close>\<close>




text \<open>
  C3. For every valid transaction id and every payload the merchant API returns whose
  \<open>status\<close> is missing (it then reads as \<^verbatim>\<open>None\<close>) or is a string, a number, a boolean
  or \<^verbatim>\<open>None\<close>, \<^verbatim>\<open>check_payment\<close> returns a result; when the status is not one of the
  strings \<^verbatim>\<open>success\<close>, \<^verbatim>\<open>processing\<close>, \<^verbatim>\<open>failed\<close>, \<^verbatim>\<open>cancelled\<close>, the
  \<open>status\<close> field of the result is \<^verbatim>\<open>unknown\<close>.
\<close>

theorem unknown_status_defaults:
  assumes "valid_transaction_id t"
    and "api_check_payment api (api_calls self) (account_id_of t) = Inr payment_data"
    and "dict_get payment_data ''status'' (Atom PNone) = Atom a"
  shows "\<exists>res. fst (check_payment tr api self t) = Inr res
    \<and> (a \<notin> {PStr ''success'', PStr ''processing'', PStr ''failed'', PStr ''cancelled''}
         \<longrightarrow> map_of res ''status'' = Some (Atom (PStr ''unknown'')))"
  using assms by (simp add: check_payment_valid status_mapping_get_Atom)

theorem unknown_status_defaults_witness:
  "valid_transaction_id ''click_42_150000''
   \<and> (\<exists>res. fst (check_payment id (example_api [(''status'', Atom (PStr ''refunded''))])
                  example_gateway ''click_42_150000'') = Inr res
          \<and> map_of res ''status'' = Some (Atom (PStr ''unknown'')))
   \<and> (\<exists>res. fst (check_payment id (example_api [(''amount'', Atom (PInt 150000))])
                  example_gateway ''click_42_150000'') = Inr res
          \<and> map_of res ''status'' = Some (Atom (PStr ''unknown'')))"
  using unknown_status_defaults [OF valid_click_42_150000,
      where api = "example_api [(''status'', Atom (PStr ''refunded''))]" and self = example_gateway
        and payment_data = "[(''status'', Atom (PStr ''refunded''))]" and a = "PStr ''refunded''"
        and tr = id]
    unknown_status_defaults [OF valid_click_42_150000,
      where api = "example_api [(''amount'', Atom (PInt 150000))]" and self = example_gateway
        and payment_data = "[(''amount'', Atom (PInt 150000))]" and a = PNone and tr = id]
  by (simp add: valid_click_42_150000 example_api_def dict_get_def)

text \<open>
  C6. For the input \<^verbatim>\<open>click_42_150000\<close>, when the merchant API's payload for account
  \<^verbatim>\<open>42\<close> has the status \<^verbatim>\<open>success\<close>, the \<open>status\<close> field of the result of
  \<^verbatim>\<open>check_payment\<close> is \<^verbatim>\<open>paid\<close>. For every valid transaction id the lookup maps
  \<^verbatim>\<open>success\<close> to \<^verbatim>\<open>paid\<close>, \<^verbatim>\<open>processing\<close> to \<^verbatim>\<open>waiting\<close>, \<^verbatim>\<open>failed\<close> to
  \<^verbatim>\<open>failed\<close> and \<^verbatim>\<open>cancelled\<close> to \<^verbatim>\<open>cancelled\<close>.
\<close>

theorem status_mapping_example:
  "(api_check_payment api (api_calls self) ''42'' = Inr payment_data
      \<and> map_of payment_data ''status'' = Some (Atom (PStr ''success''))
      \<longrightarrow> (\<exists>res. fst (check_payment tr api self ''click_42_150000'') = Inr res
                 \<and> map_of res ''status'' = Some (Atom (PStr ''paid''))))
   \<and> (valid_transaction_id t
        \<and> api_check_payment api (api_calls self) (account_id_of t) = Inr payment_data
        \<and> map_of payment_data ''status'' = Some (Atom (PStr native))
        \<and> (native, canonical) \<in> {(''success'', ''paid''), (''processing'', ''waiting''),
                                    (''failed'', ''failed''), (''cancelled'', ''cancelled'')}
      \<longrightarrow> (\<exists>res. fst (check_payment tr api self t) = Inr res
                 \<and> map_of res ''status'' = Some (Atom (PStr canonical))))"
proof (intro conjI impI)
  assume "api_check_payment api (api_calls self) ''42'' = Inr payment_data
      \<and> map_of payment_data ''status'' = Some (Atom (PStr ''success''))"
  then show "\<exists>res. fst (check_payment tr api self ''click_42_150000'') = Inr res
                 \<and> map_of res ''status'' = Some (Atom (PStr ''paid''))"
    by (simp add: check_payment_valid [OF valid_click_42_150000] account_id_of_click_42_150000
        dict_get_def status_mapping_get_Atom)
next
  assume "valid_transaction_id t
        \<and> api_check_payment api (api_calls self) (account_id_of t) = Inr payment_data
        \<and> map_of payment_data ''status'' = Some (Atom (PStr native))
        \<and> (native, canonical) \<in> {(''success'', ''paid''), (''processing'', ''waiting''),
                                    (''failed'', ''failed''), (''cancelled'', ''cancelled'')}"
  then show "\<exists>res. fst (check_payment tr api self t) = Inr res
                 \<and> map_of res ''status'' = Some (Atom (PStr canonical))"
    by (auto simp add: check_payment_valid dict_get_def status_mapping_get_Atom)
qed

theorem status_mapping_example_witness:
  "\<exists>res. fst (check_payment id (example_api [(''status'', Atom (PStr ''success''))])
               example_gateway ''click_42_150000'') = Inr res
       \<and> map_of res ''status'' = Some (Atom (PStr ''paid''))"
  using status_mapping_example [where api = "example_api [(''status'', Atom (PStr ''success''))]"
      and self = example_gateway and payment_data = "[(''status'', Atom (PStr ''success''))]"
      and tr = id]
  by (simp add: example_api_def)

text \<open>
  C7. For every valid transaction id, when the merchant API returns a cancel payload,
  \<^verbatim>\<open>cancel_payment\<close> returns the dict of \<open>transaction_id\<close> (the argument),
  \<open>status\<close> (the constant \<^verbatim>\<open>cancelled\<close>), \<open>cancelled_at\<close> (read from the payload) and
  \<open>raw_response\<close> (the whole payload). It parses the transaction id as
  \<^verbatim>\<open>check_payment\<close> does: for a valid id both send one request for the same account id,
  an error of the merchant API is propagated, and for an invalid id both fail in the same
  way without a request.
\<close>

theorem cancel_payment_result:
  "(valid_transaction_id t
      \<and> api_cancel_payment api (api_calls self) (account_id_of t) reason = Inr cancel_data
      \<longrightarrow> cancel_payment tr api self t reason =
            (Inr [(''transaction_id'', Atom (PStr t)),
                  (''status'', Atom (PStr ''cancelled'')),
                  (''cancelled_at'', dict_get cancel_data ''cancelled_at'' (Atom PNone)),
                  (''raw_response'', PDict cancel_data)],
             self\<lparr>api_calls := api_calls self @ [CancelPayment (account_id_of t) reason]\<rparr>))
   \<and> (valid_transaction_id t
      \<longrightarrow> api_calls (snd (cancel_payment tr api self t reason))
            = api_calls self @ [CancelPayment (account_id_of t) reason]
          \<and> api_calls (snd (check_payment tr api self t))
            = api_calls self @ [CheckPayment (account_id_of t)])
   \<and> (\<forall>e. valid_transaction_id t
      \<and> api_cancel_payment api (api_calls self) (account_id_of t) reason = Inl e
      \<longrightarrow> fst (cancel_payment tr api self t reason) = Inl (tr e))
   \<and> (\<not> valid_transaction_id t
      \<longrightarrow> cancel_payment tr api self t reason = check_payment tr api self t
          \<and> cancel_payment tr api self t reason
            = (Inl (tr (ValueError (''Invalid transaction ID format: '' @ t))), self))"
  by (simp add: cancel_payment_valid check_payment_valid cancel_payment_invalid
      check_payment_invalid)

theorem cancel_payment_result_witness:
  "cancel_payment id (example_api [(''cancelled_at'', Atom (PStr ''2024-01-01''))])
       example_gateway ''click_42_150000'' (Some ''refund'') =
     (Inr [(''transaction_id'', Atom (PStr ''click_42_150000'')),
           (''status'', Atom (PStr ''cancelled'')),
           (''cancelled_at'', Atom (PStr ''2024-01-01'')),
           (''raw_response'', PDict [(''cancelled_at'', Atom (PStr ''2024-01-01''))])],
      example_gateway\<lparr>api_calls := [CancelPayment ''42'' (Some ''refund'')]\<rparr>)
   \<and> cancel_payment id (example_api []) example_gateway ''bogus'' None
     = check_payment id (example_api []) example_gateway ''bogus''"
  using cancel_payment_result [where t = "''click_42_150000''"
      and api = "example_api [(''cancelled_at'', Atom (PStr ''2024-01-01''))]"
      and self = example_gateway and reason = "Some ''refund''"
      and cancel_data = "[(''cancelled_at'', Atom (PStr ''2024-01-01''))]" and tr = id]
    cancel_payment_result [where t = "''bogus''" and api = "example_api []"
      and self = example_gateway and reason = None and tr = id]
  by (simp add: valid_click_42_150000 account_id_of_click_42_150000 invalid_bogus
      example_api_def example_gateway_def dict_get_def)

text \<open>
  C8. For every valid transaction id and every payload of the merchant API, a value that
  \<^verbatim>\<open>check_payment\<close> returns has exactly the fields \<open>transaction_id\<close>, \<open>status\<close>,
  \<open>amount\<close>, \<open>paid_at\<close>, \<open>created_at\<close> and \<open>raw_response\<close>, in this order:
  \<open>transaction_id\<close> is the argument unchanged, \<open>amount\<close>, \<open>paid_at\<close> and
  \<open>created_at\<close> are read from the payload (\<^verbatim>\<open>None\<close> when missing) and
  \<open>raw_response\<close> is the whole payload.
\<close>

theorem check_payment_result_fields:
  assumes "valid_transaction_id t"
    and "api_check_payment api (api_calls self) (account_id_of t) = Inr payment_data"
    and "fst (check_payment tr api self t) = Inr res"
  shows "\<exists>mapped_status.
           res = [(''transaction_id'', Atom (PStr t)),
                  (''status'', Atom (PStr mapped_status)),
                  (''amount'', dict_get payment_data ''amount'' (Atom PNone)),
                  (''paid_at'', dict_get payment_data ''paid_at'' (Atom PNone)),
                  (''created_at'', dict_get payment_data ''created_at'' (Atom PNone)),
                  (''raw_response'', PDict payment_data)]"
  using assms by (auto simp add: check_payment_valid split: sum.splits)

theorem check_payment_result_fields_witness:
  "valid_transaction_id ''click_42_150000''
   \<and> fst (check_payment id
            (example_api [(''status'', Atom (PStr ''success'')), (''amount'', Atom (PInt 150000))])
            example_gateway ''click_42_150000'')
     = Inr [(''transaction_id'', Atom (PStr ''click_42_150000'')),
            (''status'', Atom (PStr ''paid'')),
            (''amount'', Atom (PInt 150000)),
            (''paid_at'', Atom PNone),
            (''created_at'', Atom PNone),
            (''raw_response'',
             PDict [(''status'', Atom (PStr ''success'')), (''amount'', Atom (PInt 150000))])]"
proof -
  let ?pd = "[(''status'', Atom (PStr ''success'')), (''amount'', Atom (PInt 150000))]"
  have ret: "fst (check_payment id (example_api ?pd) example_gateway ''click_42_150000'')
      = Inr [(''transaction_id'', Atom (PStr ''click_42_150000'')),
            (''status'', Atom (PStr ''paid'')),
            (''amount'', Atom (PInt 150000)),
            (''paid_at'', Atom PNone),
            (''created_at'', Atom PNone),
            (''raw_response'', PDict ?pd)]"
    by (simp add: check_payment_valid [OF valid_click_42_150000] example_api_def dict_get_def
        status_mapping_get_Atom)
  have api: "api_check_payment (example_api ?pd) (api_calls example_gateway)
               (account_id_of ''click_42_150000'') = Inr ?pd"
    by (simp add: example_api_def)
  from check_payment_result_fields [OF valid_click_42_150000 api ret] ret valid_click_42_150000
  show ?thesis by simp
qed

text \<open>
  C9. Two valid transaction ids with the same second segment, whatever their other
  segments: \<^verbatim>\<open>check_payment\<close> sends the same single request, for that account id, and
  leaves the gateway in the same state, and its outcomes (results or errors) agree outside
  the \<open>transaction_id\<close> field; the same holds for \<^verbatim>\<open>cancel_payment\<close>. The amount
  segment is neither checked nor used.
\<close>

theorem account_id_only:
  assumes "valid_transaction_id t1" and "valid_transaction_id t2"
    and "account_id_of t1 = account_id_of t2"
  shows "snd (check_payment tr api self t1) = snd (check_payment tr api self t2)
    \<and> api_calls (snd (check_payment tr api self t1))
        = api_calls self @ [CheckPayment (account_id_of t1)]
    \<and> map_sum id (without_key ''transaction_id'') (fst (check_payment tr api self t1))
        = map_sum id (without_key ''transaction_id'') (fst (check_payment tr api self t2))
    \<and> snd (cancel_payment tr api self t1 reason) = snd (cancel_payment tr api self t2 reason)
    \<and> api_calls (snd (cancel_payment tr api self t1 reason))
        = api_calls self @ [CancelPayment (account_id_of t1) reason]
    \<and> map_sum id (without_key ''transaction_id'') (fst (cancel_payment tr api self t1 reason))
        = map_sum id (without_key ''transaction_id'') (fst (cancel_payment tr api self t2 reason))"
  using assms
  by (simp add: check_payment_valid cancel_payment_valid without_key_def split: sum.splits)

theorem account_id_only_witness:
  "valid_transaction_id ''click_42_150000'' \<and> valid_transaction_id ''click_42_1_extra''
   \<and> account_id_of ''click_42_150000'' = ''42'' \<and> account_id_of ''click_42_1_extra'' = ''42''
   \<and> snd (check_payment id (example_api []) example_gateway ''click_42_150000'')
       = snd (check_payment id (example_api []) example_gateway ''click_42_1_extra'')
   \<and> map_sum id (without_key ''transaction_id'')
         (fst (check_payment id (example_api []) example_gateway ''click_42_150000''))
       = map_sum id (without_key ''transaction_id'')
           (fst (check_payment id (example_api []) example_gateway ''click_42_1_extra''))"
proof -
  have eq: "account_id_of ''click_42_150000'' = account_id_of ''click_42_1_extra''"
    by (simp add: account_id_of_click_42_150000 account_id_of_click_42_extra)
  from account_id_only [OF valid_click_42_150000 valid_click_42_extra eq,
      where tr = id and api = "example_api []" and self = example_gateway and reason = None]
    valid_click_42_150000 valid_click_42_extra account_id_of_click_42_150000
    account_id_of_click_42_extra
  show ?thesis by blast
qed

end
